theory Spec2Isabelle
  imports Main
begin

section \<open>Values and exceptions\<close>

text \<open>
  Python strings are modelled as \<open>string\<close>, one \<open>char\<close> per code point; the model
  therefore covers the inputs whose code points lie below 256. In that range the only
  decimal digits known to \<open>\d\<close> and to \<open>int()\<close> are \<open>0\<close> .. \<open>9\<close>.

  The exceptions the module can raise are values: \<open>ValueError\<close> carries its message,
  \<open>KeyError\<close> the missing key, \<open>IndexError\<close> stands for a tuple index out of range,
  \<open>TypeError\<close> for \<open>int(None)\<close>.
\<close>

datatype error = ValueError string | KeyError string | IndexError | TypeError

text \<open>An element of the \<open>pre_release\<close> tuple is a Python \<open>int\<close> or a Python \<open>str\<close>.\<close>

datatype ident = PInt int | PStr string

section \<open>The regular expression\<close>

text \<open>
  The pattern of \<open>_REGEXP\<close> is kept as a syntax tree, and \<open>re.match\<close> is a backtracking
  matcher over it that lists every way to match, in the priority order of Python's engine
  (left alternative first, greedy repetition first). A result is the rest of the input and
  the named groups set on the way. A character class is a list of inclusive ranges.
  \<open>Eol\<close> is \<open>$\<close> without MULTILINE: the end of the string, or just before a final newline.
  The unnamed groups of the pattern are never read by the module and carry no name here.
\<close>

datatype regex =
    Lit char
  | Cls "(char \<times> char) list"
  | Eps
  | Eol
  | Seq regex regex
  | Alt regex regex
  | Opt regex
  | Star regex
  | Grp string regex

type_synonym groups = "(string \<times> string) list"
type_synonym mstate = "string \<times> groups"

definition in_cls :: "(char \<times> char) list \<Rightarrow> char \<Rightarrow> bool" where
  "in_cls rs c = list_ex (\<lambda>(lo, hi). (of_char lo :: nat) \<le> of_char c \<and> (of_char c :: nat) \<le> of_char hi) rs"

text \<open>
  Repetition: at most \<open>n\<close> further rounds of the body, the longest first. A round that
  consumes nothing is dropped; every round consumes a character, so \<open>length s\<close> rounds
  are all there can be.
\<close>

fun iter :: "nat \<Rightarrow> (mstate \<Rightarrow> mstate list) \<Rightarrow> mstate \<Rightarrow> mstate list" where
  "iter 0 m st = [st]"
| "iter (Suc n) m st =
     concat (map (\<lambda>st'. if length (fst st') < length (fst st) then iter n m st' else []) (m st))
     @ [st]"

primrec rmatch :: "regex \<Rightarrow> mstate \<Rightarrow> mstate list" where
  "rmatch (Lit c) = (\<lambda>(s, g). case s of [] \<Rightarrow> [] | x # xs \<Rightarrow> if x = c then [(xs, g)] else [])"
| "rmatch (Cls rs) = (\<lambda>(s, g). case s of [] \<Rightarrow> [] | x # xs \<Rightarrow> if in_cls rs x then [(xs, g)] else [])"
| "rmatch Eps = (\<lambda>st. [st])"
| "rmatch Eol = (\<lambda>(s, g). if s = [] \<or> s = [CHR 0x0A] then [(s, g)] else [])"
| "rmatch (Seq a b) = (\<lambda>st. concat (map (rmatch b) (rmatch a st)))"
| "rmatch (Alt a b) = (\<lambda>st. rmatch a st @ rmatch b st)"
| "rmatch (Opt a) = (\<lambda>st. rmatch a st @ [st])"
| "rmatch (Star a) = (\<lambda>st. iter (length (fst st)) (rmatch a) st)"
| "rmatch (Grp name a) =
     (\<lambda>(s, g). map (\<lambda>(s', g'). (s', (name, take (length s - length s') s) # g')) (rmatch a (s, g)))"

text \<open>\<open>re.match\<close>: the first way to match from the start of the string, if any.\<close>

definition re_match :: "regex \<Rightarrow> string \<Rightarrow> groups option" where
  "re_match r s = (case rmatch r (s, []) of [] \<Rightarrow> None | (_, g) # _ \<Rightarrow> Some g)"

text \<open>\<open>match[name]\<close>: the text of the group, \<open>None\<close> when the group took no part.\<close>

definition group :: "groups \<Rightarrow> string \<Rightarrow> string option" where
  "group g name = map_of g name"

primrec lits :: "string \<Rightarrow> regex" where
  "lits [] = Eps"
| "lits (c # cs) = Seq (Lit c) (lits cs)"

definition seqs :: "regex list \<Rightarrow> regex" where
  "seqs rs = foldr Seq rs Eps"

definition alts :: "regex \<Rightarrow> regex list \<Rightarrow> regex" where
  "alts r rs = foldl Alt r rs"

definition digit :: regex where
  "digit = Cls [(CHR ''0'', CHR ''9'')]"

text \<open>\<open>0|[1-9]\d*\<close>\<close>

definition number_rx :: regex where
  "number_rx = Alt (Lit CHR ''0'') (Seq (Cls [(CHR ''1'', CHR ''9'')]) (Star digit))"

text \<open>\<open>0|[1-9]\d*|\d*[a-zA-Z-][0-9a-zA-Z-]*\<close>\<close>

definition identifier_rx :: regex where
  "identifier_rx =
     alts (Lit CHR ''0'')
       [Seq (Cls [(CHR ''1'', CHR ''9'')]) (Star digit),
        seqs [Star digit,
              Cls [(CHR ''a'', CHR ''z''), (CHR ''A'', CHR ''Z''), (CHR ''-'', CHR ''-'')],
              Star (Cls [(CHR ''0'', CHR ''9''), (CHR ''a'', CHR ''z''), (CHR ''A'', CHR ''Z''),
                         (CHR ''-'', CHR ''-'')])]]"

definition REGEXP :: regex where
  "REGEXP =
     seqs [Grp ''major'' number_rx,
           Lit CHR ''.'', Grp ''minor'' number_rx,
           Lit CHR ''.'', Grp ''patch'' number_rx,
           Grp ''pre_release''
             (Alt (Opt (Grp ''shorten_pre_release''
                         (alts (lits ''a'')
                            [lits ''b'', lits ''rc'', lits ''r'', lits ''alpha'', lits ''beta'',
                             lits ''release'', lits ''release_candidate''])))
                  (Opt (Grp ''default_pre_release''
                         (seqs [Lit CHR ''-'', identifier_rx,
                                Star (Seq (Lit CHR ''.'') identifier_rx)])))),
           Eol]"

section \<open>Built-ins used by the module\<close>

text \<open>
  \<open>int(s)\<close> on a string: surrounding whitespace is stripped, one sign is allowed, then
  decimal digits, where single underscores may separate groups of digits. Anything else
  raises \<open>ValueError\<close>. The message quotes the argument as \<open>repr\<close> does for a string free
  of quotes, backslashes and control characters, which is all the pattern lets through.
  \<open>int(None)\<close> raises \<open>TypeError\<close>. CPython's configurable cap on the number of digits
  that \<open>int()\<close> converts (4300 by default from 3.11 on) is left out: with the cap, some
  very long inputs raise \<open>ValueError\<close> where the model constructs a Version, so the
  Versions constructed under the cap are among those constructed here.
\<close>

definition is_space :: "char \<Rightarrow> bool" where
  "is_space c = ((of_char c :: nat) \<in> set [9, 10, 11, 12, 13, 28, 29, 30, 31, 32, 133, 160])"

definition strip :: "string \<Rightarrow> string" where
  "strip s = rev (dropWhile is_space (rev (dropWhile is_space s)))"

definition is_digit :: "char \<Rightarrow> bool" where
  "is_digit c = ((48::nat) \<le> of_char c \<and> (of_char c :: nat) \<le> 57)"

definition digit_val :: "char \<Rightarrow> int" where
  "digit_val c = int (of_char c) - 48"

definition digits_val :: "string \<Rightarrow> int" where
  "digits_val ds = foldl (\<lambda>a c. 10 * a + digit_val c) 0 ds"

text \<open>\<open>s.split(sep)\<close> for a one-character separator.\<close>

fun split :: "char \<Rightarrow> string \<Rightarrow> string list" where
  "split sep [] = [[]]"
| "split sep (c # cs) =
     (if c = sep then [] # split sep cs
      else (let r = split sep cs in (c # hd r) # tl r))"

definition py_repr :: "string \<Rightarrow> string" where
  "py_repr s = [CHR 0x27] @ s @ [CHR 0x27]"

definition py_int :: "string \<Rightarrow> error + int" where
  "py_int s =
     (let t = strip s;
          neg = (t \<noteq> [] \<and> hd t = CHR ''-'');
          body = (if t \<noteq> [] \<and> (hd t = CHR ''-'' \<or> hd t = CHR ''+'') then tl t else t);
          parts = split CHR ''_'' body
      in if list_all (\<lambda>p. p \<noteq> [] \<and> list_all is_digit p) parts
         then Inr ((if neg then -1 else 1) * digits_val (concat parts))
         else Inl (ValueError (''invalid literal for int() with base 10: '' @ py_repr s)))"

definition py_int_opt :: "string option \<Rightarrow> error + int" where
  "py_int_opt x = (case x of None \<Rightarrow> Inl TypeError | Some s \<Rightarrow> py_int s)"

text \<open>A generator consumed by \<open>tuple(...)\<close>: the first exception ends it.\<close>

fun map_err :: "('a \<Rightarrow> error + 'b) \<Rightarrow> 'a list \<Rightarrow> error + 'b list" where
  "map_err f [] = Inr []"
| "map_err f (x # xs) =
     (case f x of
        Inl e \<Rightarrow> Inl e
      | Inr y \<Rightarrow> (case map_err f xs of Inl e \<Rightarrow> Inl e | Inr ys \<Rightarrow> Inr (y # ys)))"

section \<open>The class Version\<close>

record Version =
  main_version :: "int \<times> int \<times> int"
  pre_release :: "ident list"
  pre_release_len :: nat

definition PRIORITY :: "string \<rightharpoonup> int" where
  "PRIORITY = map_of
     [(''alpha'', 0),
      (''beta'', 1),
      (''release_candidate'', 2),
      (''release'', 3)]"

definition SHORTENING :: "string \<rightharpoonup> string" where
  "SHORTENING = map_of
     [(''a'', ''alpha''),
      (''b'', ''beta''),
      (''rc'', ''release_candidate''),
      (''r'', ''release'')]"

definition parse ::
  "string \<Rightarrow> error + (string option \<times> string option \<times> string option \<times> string option \<times> string option)"
where
  "parse version =
     (case re_match REGEXP version of
        None \<Rightarrow> Inl (ValueError (version @ '' is not valid version''))
      | Some m \<Rightarrow>
          Inr (group m ''major'',
               group m ''minor'',
               group m ''patch'',
               group m ''shorten_pre_release'',
               group m ''default_pre_release''))"

definition replace_shortening :: "string \<Rightarrow> error + ident" where
  "replace_shortening shorten_string =
     (if shorten_string \<in> set [''a'', ''b'', ''rc'', ''c'']
      then (case SHORTENING shorten_string of
              None \<Rightarrow> Inl (KeyError shorten_string)
            | Some full \<Rightarrow> Inr (PStr full))
      else if shorten_string \<notin> set [''alpha'', ''beta'', ''release_candidate'', ''release'']
      then (case py_int shorten_string of Inl e \<Rightarrow> Inl e | Inr n \<Rightarrow> Inr (PInt n))
      else Inr (PStr shorten_string))"

fun partial_compare :: "ident \<Rightarrow> ident \<Rightarrow> error + int" where
  "partial_compare (PInt o1) (PInt o2) = Inr (if o1 > o2 then 1 else if o1 = o2 then 0 else -1)"
| "partial_compare (PInt o1) (PStr o2) = Inr (-1)"
| "partial_compare (PStr o1) (PInt o2) = Inr 1"
| "partial_compare (PStr o1) (PStr o2) =
     (case PRIORITY o1 of
        None \<Rightarrow> Inl (KeyError o1)
      | Some p1 \<Rightarrow>
          (case PRIORITY o2 of
             None \<Rightarrow> Inl (KeyError o2)
           | Some p2 \<Rightarrow> Inr (if p1 > p2 then 1 else if p1 = p2 then 0 else -1)))"

text \<open>Python's order on tuples, for the triples of \<open>main_version\<close>.\<close>

fun tuple_gt :: "int \<times> int \<times> int \<Rightarrow> int \<times> int \<times> int \<Rightarrow> bool" where
  "tuple_gt (a1, a2, a3) (b1, b2, b3) =
     (if a1 \<noteq> b1 then a1 > b1 else if a2 \<noteq> b2 then a2 > b2 else a3 > b3)"

fun tuple_lt :: "int \<times> int \<times> int \<Rightarrow> int \<times> int \<times> int \<Rightarrow> bool" where
  "tuple_lt (a1, a2, a3) (b1, b2, b3) =
     (if a1 \<noteq> b1 then a1 < b1 else if a2 \<noteq> b2 then a2 < b2 else a3 < b3)"

text \<open>\<open>t[i]\<close> for an index that is not negative.\<close>

definition tuple_get :: "'a list \<Rightarrow> nat \<Rightarrow> error + 'a" where
  "tuple_get t i = (if i < length t then Inr (t ! i) else Inl IndexError)"

text \<open>
  What the other operand of a comparison can be, and what a method hands back:
  a value, or \<open>NotImplemented\<close>.
\<close>

datatype pyval = PyVersion Version | PyInt int | PyStr string | PyNone

datatype 'a ret = NotImplemented | Ret 'a

text \<open>
  The \<open>for\<close> loop of \<open>compare\<close> over the indices it is given; \<open>None\<close> when the loop
  ends without returning. The second call of \<open>partial_compare\<close> is made only when the
  first did not give 1.
\<close>

fun compare_loop :: "ident list \<Rightarrow> ident list \<Rightarrow> nat list \<Rightarrow> error + int option" where
  "compare_loop p1 p2 [] = Inr None"
| "compare_loop p1 p2 (i # is) =
     (case tuple_get p1 i of Inl e \<Rightarrow> Inl e | Inr x \<Rightarrow>
      case tuple_get p2 i of Inl e \<Rightarrow> Inl e | Inr y \<Rightarrow>
      case partial_compare x y of Inl e \<Rightarrow> Inl e | Inr r1 \<Rightarrow>
        if r1 = 1 then Inr (Some 1)
        else (case partial_compare x y of Inl e \<Rightarrow> Inl e | Inr r2 \<Rightarrow>
                if r2 = -1 then Inr (Some (-1)) else compare_loop p1 p2 is))"

definition compare :: "Version \<Rightarrow> pyval \<Rightarrow> error + int ret" where
  "compare self other =
     (case other of
        PyVersion ot \<Rightarrow>
          if tuple_gt (main_version self) (main_version ot) then Inr (Ret 1)
          else if tuple_lt (main_version self) (main_version ot) then Inr (Ret (-1))
          else if pre_release_len self = 0 \<and> pre_release_len ot = 0 then Inr (Ret 0)
          else if pre_release_len self = 0 then Inr (Ret 1)
          else if pre_release_len ot = 0 then Inr (Ret (-1))
          else (let min_len = min (pre_release_len self) (pre_release_len ot)
                in case compare_loop (pre_release self) (pre_release ot) [0..<min_len] of
                     Inl e \<Rightarrow> Inl e
                   | Inr (Some r) \<Rightarrow> Inr (Ret r)
                   | Inr None \<Rightarrow>
                       if pre_release_len self > pre_release_len ot then Inr (Ret 1)
                       else if pre_release_len self < pre_release_len ot then Inr (Ret (-1))
                       else Inr (Ret 0))
      | _ \<Rightarrow> Inr NotImplemented)"

definition Version_init :: "string \<Rightarrow> error + Version" where
  "Version_init version =
     (case parse version of Inl e \<Rightarrow> Inl e
      | Inr (major, minor, patch, shorten_pre_release, default_pre_release) \<Rightarrow>
     (case py_int_opt major of Inl e \<Rightarrow> Inl e | Inr ma \<Rightarrow>
     (case py_int_opt minor of Inl e \<Rightarrow> Inl e | Inr mi \<Rightarrow>
     (case py_int_opt patch of Inl e \<Rightarrow> Inl e | Inr pa \<Rightarrow>
     (case (case shorten_pre_release of
              None \<Rightarrow>
                (case default_pre_release of
                   Some d \<Rightarrow> map_err replace_shortening (split CHR ''.'' (drop 1 d))
                 | None \<Rightarrow> Inr [])
            | Some sh \<Rightarrow>
                (case replace_shortening sh of Inl e \<Rightarrow> Inl e | Inr x \<Rightarrow> Inr [x]))
      of Inl e \<Rightarrow> Inl e
       | Inr pre \<Rightarrow>
           Inr \<lparr>main_version = (ma, mi, pa), pre_release = pre,
                pre_release_len = length pre\<rparr>)))))"

definition Version_eq :: "Version \<Rightarrow> pyval \<Rightarrow> bool ret" where
  "Version_eq self other =
     (case other of
        PyVersion ot \<Rightarrow>
          Ret (main_version self = main_version ot \<and> pre_release self = pre_release ot)
      | _ \<Rightarrow> NotImplemented)"

definition Version_lt :: "Version \<Rightarrow> pyval \<Rightarrow> error + bool ret" where
  "Version_lt self other =
     (case other of
        PyVersion ot \<Rightarrow>
          (case compare self other of Inl e \<Rightarrow> Inl e | Inr r \<Rightarrow> Inr (Ret (r = Ret (-1))))
      | _ \<Rightarrow> Inr NotImplemented)"

section \<open>The invariant of a constructed Version\<close>

text \<open>
  What \<open>__init__\<close> establishes, as a predicate for the proofs below: an element of
  \<open>pre_release\<close> is an \<open>int\<close> or a key of \<open>_PRIORITY\<close>, and \<open>pre_release_len\<close> is the
  length of \<open>pre_release\<close>.
\<close>

definition stage_or_int :: "ident \<Rightarrow> bool" where
  "stage_or_int x =
     (case x of PInt n \<Rightarrow> True
      | PStr t \<Rightarrow> t \<in> set [''alpha'', ''beta'', ''release_candidate'', ''release''])"

definition wf_Version :: "Version \<Rightarrow> bool" where
  "wf_Version v = (pre_release_len v = length (pre_release v) \<and> list_all stage_or_int (pre_release v))"

section \<open>Construction establishes the invariant\<close>

lemma replace_shortening_stage_or_int:
  "replace_shortening s = Inr x \<Longrightarrow> stage_or_int x"
  unfolding replace_shortening_def SHORTENING_def stage_or_int_def
  by (auto split: if_splits option.splits sum.splits)

lemma map_err_all:
  assumes "\<And>x y. f x = Inr y \<Longrightarrow> P y"
  shows "map_err f xs = Inr ys \<Longrightarrow> list_all P ys"
proof (induction xs arbitrary: ys)
  case Nil
  then show ?case by simp
next
  case (Cons x xs)
  then show ?case using assms by (auto split: sum.splits)
qed

lemma Version_init_wf:
  assumes "Version_init s = Inr v"
  shows "wf_Version v"
  using assms unfolding Version_init_def wf_Version_def
  by (auto split: sum.splits option.splits prod.splits
      dest: replace_shortening_stage_or_int
      intro: map_err_all [of replace_shortening stage_or_int])

lemma partial_compare_range:
  "stage_or_int x \<Longrightarrow> stage_or_int y \<Longrightarrow>
   partial_compare x y = Inr (-1) \<or> partial_compare x y = Inr 0 \<or> partial_compare x y = Inr 1"
  by (cases x; cases y) (auto simp: stage_or_int_def PRIORITY_def)

lemma partial_compare_flip:
  "stage_or_int x \<Longrightarrow> stage_or_int y \<Longrightarrow> partial_compare x y = Inr r \<Longrightarrow>
   partial_compare y x = Inr (- r)"
  by (cases x; cases y) (auto simp: stage_or_int_def PRIORITY_def split: if_splits)

lemma tuple_gt_lt: "tuple_gt a b = tuple_lt b a"
  by (cases a; cases b) auto

lemma tuple_trichotomy: "\<not> tuple_gt a b \<Longrightarrow> \<not> tuple_lt a b \<Longrightarrow> a = b"
  by (cases a; cases b) (auto split: if_splits)

lemma tuple_lt_irrefl: "\<not> tuple_lt a a" "\<not> tuple_gt a a"
  by (cases a; simp)+

section \<open>The loop of compare\<close>

lemma compare_loop_append:
  "compare_loop p1 p2 (xs @ ys) =
     (case compare_loop p1 p2 xs of Inr None \<Rightarrow> compare_loop p1 p2 ys | r \<Rightarrow> r)"
  by (induction xs) (auto split: sum.splits option.splits)

lemma compare_loop_flip:
  assumes "list_all stage_or_int p1" "list_all stage_or_int p2"
  shows "\<forall>i\<in>set is. i < length p1 \<and> i < length p2 \<Longrightarrow>
     \<exists>r. compare_loop p1 p2 is = Inr r \<and> compare_loop p2 p1 is = Inr (map_option uminus r)
        \<and> (r = None \<or> r = Some 1 \<or> r = Some (-1))"
proof (induction "is")
  case Nil
  then show ?case by simp
next
  case (Cons i "is")
  have i: "i < length p1" "i < length p2" using Cons.prems by auto
  have x: "stage_or_int (p1 ! i)" using assms(1) i(1) by (simp add: list_all_length)
  have y: "stage_or_int (p2 ! i)" using assms(2) i(2) by (simp add: list_all_length)
  from partial_compare_range [OF x y]
  consider (lt) "partial_compare (p1 ! i) (p2 ! i) = Inr (-1)"
    | (eq) "partial_compare (p1 ! i) (p2 ! i) = Inr 0"
    | (gt) "partial_compare (p1 ! i) (p2 ! i) = Inr 1" by blast
  then show ?case
  proof cases
    case lt
    from partial_compare_flip [OF x y lt] have "partial_compare (p2 ! i) (p1 ! i) = Inr 1" by simp
    with lt i show ?thesis by (simp add: tuple_get_def)
  next
    case eq
    from partial_compare_flip [OF x y eq] have "partial_compare (p2 ! i) (p1 ! i) = Inr 0" by simp
    with eq i Cons show ?thesis by (simp add: tuple_get_def)
  next
    case gt
    from partial_compare_flip [OF x y gt] have "partial_compare (p2 ! i) (p1 ! i) = Inr (-1)" by simp
    with gt i show ?thesis by (simp add: tuple_get_def)
  qed
qed

lemma compare_loop_all_equal:
  "\<forall>j\<in>set is. j < length p1 \<and> j < length p2 \<and> partial_compare (p1 ! j) (p2 ! j) = Inr 0 \<Longrightarrow>
   compare_loop p1 p2 is = Inr None"
  by (induction "is") (auto simp: tuple_get_def)

lemma upt_split_at: "i < n \<Longrightarrow> [0..<n] = [0..<i] @ i # [Suc i..<n]"
  using upt_add_eq_append [of 0 i "n - i"] by (simp add: upt_conv_Cons)

lemma compare_loop_first:
  assumes wf: "list_all stage_or_int p1" "list_all stage_or_int p2"
    and n: "n \<le> length p1" "n \<le> length p2" and i: "i < n"
    and before: "\<forall>j<i. partial_compare (p1 ! j) (p2 ! j) = Inr 0"
    and at: "partial_compare (p1 ! i) (p2 ! i) = Inr r" "r \<noteq> 0"
  shows "compare_loop p1 p2 [0..<n] = Inr (Some r)"
proof -
  have pre: "compare_loop p1 p2 [0..<i] = Inr None"
    using before n i by (intro compare_loop_all_equal) auto
  have x: "stage_or_int (p1 ! i)" using wf(1) n i by (simp add: list_all_length)
  have y: "stage_or_int (p2 ! i)" using wf(2) n i by (simp add: list_all_length)
  have r: "r = 1 \<or> r = -1" using partial_compare_range [OF x y] at by auto
  have "compare_loop p1 p2 (i # [Suc i..<n]) = Inr (Some r)"
    using r at n i by (auto simp: tuple_get_def)
  with pre show ?thesis
    by (simp add: upt_split_at [OF i] compare_loop_append)
qed

lemma compare_wf_pre_release:
  assumes "wf_Version a" "wf_Version b" "main_version a = main_version b"
    "pre_release a \<noteq> []" "pre_release b \<noteq> []"
  shows "compare a (PyVersion b) =
     (case compare_loop (pre_release a) (pre_release b)
             [0..<min (length (pre_release a)) (length (pre_release b))] of
        Inl e \<Rightarrow> Inl e
      | Inr (Some r) \<Rightarrow> Inr (Ret r)
      | Inr None \<Rightarrow>
          Inr (Ret (if length (pre_release a) > length (pre_release b) then 1
                    else if length (pre_release a) < length (pre_release b) then -1 else 0)))"
  using assms unfolding compare_def wf_Version_def
  by (auto simp: tuple_lt_irrefl Let_def split: sum.splits option.splits)



lemma tuple_lt_asym: "tuple_lt a b \<Longrightarrow> \<not> tuple_lt b a"
  by (cases a; cases b) (auto split: if_splits)

lemma compare_wf_antisym:
  assumes wa: "wf_Version a" and wb: "wf_Version b"
  shows "compare a (PyVersion b) = Inr (Ret 1) \<longleftrightarrow> compare b (PyVersion a) = Inr (Ret (-1))"
proof -
  let ?pa = "pre_release a" and ?pb = "pre_release b"
  let ?n = "min (length ?pa) (length ?pb)"
  have la: "list_all stage_or_int ?pa" and lb: "list_all stage_or_int ?pb"
    using wa wb by (simp_all add: wf_Version_def)
  consider (gt) "tuple_gt (main_version a) (main_version b)"
    | (lt) "\<not> tuple_gt (main_version a) (main_version b)" "tuple_lt (main_version a) (main_version b)"
    | (eq0) "main_version a = main_version b" "?pa = [] \<or> ?pb = []"
    | (eq) "main_version a = main_version b" "?pa \<noteq> []" "?pb \<noteq> []"
    using tuple_trichotomy by blast
  then show ?thesis
  proof cases
    case gt
    then show ?thesis using tuple_lt_asym [of "main_version b" "main_version a"]
      by (simp add: compare_def tuple_gt_lt)
  next
    case lt
    then show ?thesis using tuple_lt_asym [of "main_version a" "main_version b"]
      by (simp add: compare_def tuple_gt_lt)
  next
    case eq0
    then show ?thesis using wa wb
      by (auto simp: compare_def wf_Version_def tuple_lt_irrefl)
  next
    case eq
    from compare_loop_flip [OF la lb, of "[0..<?n]"]
    obtain r where r: "compare_loop ?pa ?pb [0..<?n] = Inr r"
      "compare_loop ?pb ?pa [0..<?n] = Inr (map_option uminus r)"
      "r = None \<or> r = Some 1 \<or> r = Some (-1)" by auto
    have ab: "compare a (PyVersion b) = (case r of Some r \<Rightarrow> Inr (Ret r)
      | None \<Rightarrow> Inr (Ret (if length ?pa > length ?pb then 1
                    else if length ?pa < length ?pb then -1 else 0)))"
      using compare_wf_pre_release [OF wa wb eq] r(1) by simp
    have ba: "compare b (PyVersion a) = (case map_option uminus r of Some r \<Rightarrow> Inr (Ret r)
      | None \<Rightarrow> Inr (Ret (if length ?pb > length ?pa then 1
                    else if length ?pb < length ?pa then -1 else 0)))"
      using compare_wf_pre_release [OF wb wa eq(1) [symmetric] eq(3,2)] r(2)
      by (simp add: min.commute)
    from r(3) show ?thesis by (auto simp: ab ba)
  qed
qed

lemma compare_wf_one_empty:
  assumes "wf_Version a" "wf_Version b" "main_version a = main_version b"
    "pre_release a \<noteq> []" "pre_release b = []"
  shows "compare a (PyVersion b) = Inr (Ret (-1))" "compare b (PyVersion a) = Inr (Ret 1)"
  using assms unfolding compare_def wf_Version_def
  by (simp_all add: tuple_lt_irrefl)

lemma compare_wf_total:
  assumes wa: "wf_Version a" and wb: "wf_Version b"
  shows "\<exists>r. compare a (PyVersion b) = Inr (Ret r)"
proof -
  let ?pa = "pre_release a" and ?pb = "pre_release b"
  let ?n = "min (length ?pa) (length ?pb)"
  have la: "list_all stage_or_int ?pa" and lb: "list_all stage_or_int ?pb"
    using wa wb by (simp_all add: wf_Version_def)
  from compare_loop_flip [OF la lb, of "[0..<?n]"]
  obtain r where r: "compare_loop ?pa ?pb [0..<?n] = Inr r" by auto
  then show ?thesis using wa wb
    by (cases r) (auto simp: compare_def wf_Version_def Let_def)
qed

section \<open>Properties of parsing and comparison\<close>

text \<open>
  Claim C1. The claim: every accepted input \<open>X.Y.Zs\<close> with \<open>s\<close> one of the shorthands
  \<open>a\<close>, \<open>b\<close>, \<open>rc\<close>, \<open>r\<close> constructs a Version whose \<open>pre_release\<close> is the one stage name
  the shorthand maps to, and \<open>Version("1.0.0r")\<close> has \<open>pre_release\<close> \<open>('release',)\<close>.
  The code at \<open>1.0.0r\<close>: the pattern accepts the input with the shorthand group \<open>r\<close>, and
  \<open>_SHORTENING\<close> maps \<open>r\<close> to \<open>release\<close>; but the membership test of
  \<open>replace_shortening\<close> lists \<open>c\<close> where \<open>r\<close> belongs, so \<open>r\<close> goes to \<open>int('r')\<close>,
  and construction raises \<open>ValueError\<close>.
\<close>

theorem shorthand_r_raises:
  "parse ''1.0.0r'' = Inr (Some ''1'', Some ''0'', Some ''0'', Some ''r'', None)
   \<and> SHORTENING ''r'' = Some ''release''
   \<and> replace_shortening ''r'' = Inl (ValueError (''invalid literal for int() with base 10: '' @ py_repr ''r''))
   \<and> Version_init ''1.0.0r'' = Inl (ValueError (''invalid literal for int() with base 10: '' @ py_repr ''r''))"
  by code_simp

text \<open>
  Claim C2. For two constructed Versions with equal \<open>main_version\<close> of which exactly one
  has an empty \<open>pre_release\<close>, \<open>compare\<close> returns -1 (LESS) for the one with a pre-release
  and 1 (GREATER) for the one without, and \<open><\<close> agrees; in particular
  \<open>Version("1.0.0-alpha") < Version("1.0.0")\<close>.
\<close>

theorem pre_release_precedes_release:
  "(Version_init s = Inr a \<and> Version_init t = Inr b \<and> main_version a = main_version b
      \<and> pre_release a \<noteq> [] \<and> pre_release b = []
    \<longrightarrow> compare a (PyVersion b) = Inr (Ret (-1)) \<and> compare b (PyVersion a) = Inr (Ret 1)
        \<and> Version_lt a (PyVersion b) = Inr (Ret True))
   \<and> Version_init ''1.0.0-alpha'' =
        Inr \<lparr>main_version = (1, 0, 0), pre_release = [PStr ''alpha''], pre_release_len = 1\<rparr>
   \<and> Version_init ''1.0.0'' = Inr \<lparr>main_version = (1, 0, 0), pre_release = [], pre_release_len = 0\<rparr>
   \<and> Version_lt \<lparr>main_version = (1, 0, 0), pre_release = [PStr ''alpha''], pre_release_len = 1\<rparr>
        (PyVersion \<lparr>main_version = (1, 0, 0), pre_release = [], pre_release_len = 0\<rparr>)
      = Inr (Ret True)"
proof (intro conjI impI)
  assume h: "Version_init s = Inr a \<and> Version_init t = Inr b \<and> main_version a = main_version b
      \<and> pre_release a \<noteq> [] \<and> pre_release b = []"
  then have wa: "wf_Version a" and wb: "wf_Version b"
    by (auto intro: Version_init_wf)
  from h compare_wf_one_empty [OF wa wb]
  show ab: "compare a (PyVersion b) = Inr (Ret (-1))" and "compare b (PyVersion a) = Inr (Ret 1)"
    by simp_all
  from ab show "Version_lt a (PyVersion b) = Inr (Ret True)"
    by (simp add: Version_lt_def)
next
  show "Version_init ''1.0.0-alpha'' =
        Inr \<lparr>main_version = (1, 0, 0), pre_release = [PStr ''alpha''], pre_release_len = 1\<rparr>"
    by code_simp
next
  show "Version_init ''1.0.0'' = Inr \<lparr>main_version = (1, 0, 0), pre_release = [], pre_release_len = 0\<rparr>"
    by code_simp
next
  show "Version_lt \<lparr>main_version = (1, 0, 0), pre_release = [PStr ''alpha''], pre_release_len = 1\<rparr>
        (PyVersion \<lparr>main_version = (1, 0, 0), pre_release = [], pre_release_len = 0\<rparr>)
      = Inr (Ret True)"
    by (simp add: Version_lt_def compare_def)
qed

theorem pre_release_precedes_release_witness:
  "Version_init ''2.1.3-rc.1'' =
        Inr \<lparr>main_version = (2, 1, 3), pre_release = [PStr ''release_candidate'', PInt 1], pre_release_len = 2\<rparr>
   \<and> Version_init ''2.1.3'' = Inr \<lparr>main_version = (2, 1, 3), pre_release = [], pre_release_len = 0\<rparr>
   \<and> compare \<lparr>main_version = (2, 1, 3), pre_release = [PStr ''release_candidate'', PInt 1], pre_release_len = 2\<rparr>
        (PyVersion \<lparr>main_version = (2, 1, 3), pre_release = [], pre_release_len = 0\<rparr>) = Inr (Ret (-1))
   \<and> compare \<lparr>main_version = (2, 1, 3), pre_release = [], pre_release_len = 0\<rparr>
        (PyVersion \<lparr>main_version = (2, 1, 3), pre_release = [PStr ''release_candidate'', PInt 1], pre_release_len = 2\<rparr>)
       = Inr (Ret 1)
   \<and> Version_lt \<lparr>main_version = (2, 1, 3), pre_release = [PStr ''release_candidate'', PInt 1], pre_release_len = 2\<rparr>
        (PyVersion \<lparr>main_version = (2, 1, 3), pre_release = [], pre_release_len = 0\<rparr>) = Inr (Ret True)"
proof -
  let ?a = "\<lparr>main_version = (2, 1, 3), pre_release = [PStr ''release_candidate'', PInt 1], pre_release_len = 2\<rparr>"
  let ?b = "\<lparr>main_version = (2, 1, 3), pre_release = [], pre_release_len = 0\<rparr>"
  have a: "Version_init ''2.1.3-rc.1'' = Inr ?a" by code_simp
  have b: "Version_init ''2.1.3'' = Inr ?b" by code_simp
  from pre_release_precedes_release [of "''2.1.3-rc.1''" ?a "''2.1.3''" ?b] a b
  show ?thesis by simp
qed

text \<open>
  Claim C3. For two constructed Versions with equal \<open>main_version\<close> and both
  \<open>pre_release\<close> tuples non-empty: \<open>compare\<close> returns the result of \<open>partial_compare\<close> at
  the first index, below the shorter length, where that result is not 0; when every
  compared pair gives 0, the longer tuple is GREATER (the shorter LESS), and 0 (EQUAL)
  is returned only when the lengths are the same.
\<close>

theorem compare_pre_release_pairwise:
  assumes "Version_init s = Inr a" and "Version_init t = Inr b"
    and "main_version a = main_version b"
    and "pre_release a \<noteq> []" and "pre_release b \<noteq> []"
  shows "(\<forall>i r. i < min (length (pre_release a)) (length (pre_release b))
            \<and> (\<forall>j<i. partial_compare (pre_release a ! j) (pre_release b ! j) = Inr 0)
            \<and> partial_compare (pre_release a ! i) (pre_release b ! i) = Inr r \<and> r \<noteq> 0
          \<longrightarrow> compare a (PyVersion b) = Inr (Ret r))
       \<and> ((\<forall>j < min (length (pre_release a)) (length (pre_release b)).
              partial_compare (pre_release a ! j) (pre_release b ! j) = Inr 0)
          \<longrightarrow> compare a (PyVersion b) =
                Inr (Ret (if length (pre_release a) > length (pre_release b) then 1
                          else if length (pre_release a) < length (pre_release b) then -1
                          else 0)))
       \<and> (compare a (PyVersion b) = Inr (Ret 0)
          \<longrightarrow> length (pre_release a) = length (pre_release b))"
proof -
  let ?pa = "pre_release a" and ?pb = "pre_release b"
  let ?n = "min (length ?pa) (length ?pb)"
  have wa: "wf_Version a" using assms(1) by (rule Version_init_wf)
  have wb: "wf_Version b" using assms(2) by (rule Version_init_wf)
  have la: "list_all stage_or_int ?pa" and lb: "list_all stage_or_int ?pb"
    using wa wb by (simp_all add: wf_Version_def)
  note cmp = compare_wf_pre_release [OF wa wb assms(3,4,5)]
  have first: "compare a (PyVersion b) = Inr (Ret r)"
    if "i < ?n" "\<forall>j<i. partial_compare (?pa ! j) (?pb ! j) = Inr 0"
      "partial_compare (?pa ! i) (?pb ! i) = Inr r" "r \<noteq> 0" for i r
    using compare_loop_first [OF la lb _ _ that] by (simp add: cmp)
  have alleq: "compare a (PyVersion b) =
                Inr (Ret (if length ?pa > length ?pb then 1
                          else if length ?pa < length ?pb then -1 else 0))"
    if "\<forall>j < ?n. partial_compare (?pa ! j) (?pb ! j) = Inr 0"
  proof -
    have "compare_loop ?pa ?pb [0..<?n] = Inr None"
      using that by (intro compare_loop_all_equal) auto
    then show ?thesis by (simp add: cmp)
  qed
  have zero: "length ?pa = length ?pb" if "compare a (PyVersion b) = Inr (Ret 0)"
  proof -
    from compare_loop_flip [OF la lb, of "[0..<?n]"]
    obtain r where r: "compare_loop ?pa ?pb [0..<?n] = Inr r"
      "r = None \<or> r = Some 1 \<or> r = Some (-1)" by auto
    with that show ?thesis by (auto simp: cmp split: if_splits)
  qed
  from first alleq zero show ?thesis by blast
qed

theorem compare_pre_release_pairwise_witness:
  "Version_init ''1.0.0-alpha.1'' =
      Inr \<lparr>main_version = (1, 0, 0), pre_release = [PStr ''alpha'', PInt 1], pre_release_len = 2\<rparr>
   \<and> Version_init ''1.0.0-alpha.beta'' =
      Inr \<lparr>main_version = (1, 0, 0), pre_release = [PStr ''alpha'', PStr ''beta''], pre_release_len = 2\<rparr>
   \<and> partial_compare (PStr ''alpha'') (PStr ''alpha'') = Inr 0
   \<and> partial_compare (PInt 1) (PStr ''beta'') = Inr (-1)
   \<and> compare \<lparr>main_version = (1, 0, 0), pre_release = [PStr ''alpha'', PInt 1], pre_release_len = 2\<rparr>
        (PyVersion \<lparr>main_version = (1, 0, 0), pre_release = [PStr ''alpha'', PStr ''beta''], pre_release_len = 2\<rparr>)
      = Inr (Ret (-1))"
proof -
  let ?a = "\<lparr>main_version = (1, 0, 0), pre_release = [PStr ''alpha'', PInt 1], pre_release_len = 2\<rparr>"
  let ?b = "\<lparr>main_version = (1, 0, 0), pre_release = [PStr ''alpha'', PStr ''beta''], pre_release_len = 2\<rparr>"
  have a: "Version_init ''1.0.0-alpha.1'' = Inr ?a" by code_simp
  have b: "Version_init ''1.0.0-alpha.beta'' = Inr ?b" by code_simp
  have m: "main_version ?a = main_version ?b" by simp
  have na: "pre_release ?a \<noteq> []" and nb: "pre_release ?b \<noteq> []" by simp_all
  have p0: "partial_compare (PStr ''alpha'') (PStr ''alpha'') = Inr 0" by (simp add: PRIORITY_def)
  have p1: "partial_compare (PInt 1) (PStr ''beta'') = Inr (-1)" by simp
  from compare_pre_release_pairwise [OF a b m na nb]
  have "\<forall>i r. i < min (length (pre_release ?a)) (length (pre_release ?b))
            \<and> (\<forall>j<i. partial_compare (pre_release ?a ! j) (pre_release ?b ! j) = Inr 0)
            \<and> partial_compare (pre_release ?a ! i) (pre_release ?b ! i) = Inr r \<and> r \<noteq> 0
          \<longrightarrow> compare ?a (PyVersion ?b) = Inr (Ret r)" by (rule conjunct1)
  then have "1 < min (length (pre_release ?a)) (length (pre_release ?b))
            \<and> (\<forall>j<1. partial_compare (pre_release ?a ! j) (pre_release ?b ! j) = Inr 0)
            \<and> partial_compare (pre_release ?a ! 1) (pre_release ?b ! 1) = Inr (-1) \<and> (-1::int) \<noteq> 0
          \<longrightarrow> compare ?a (PyVersion ?b) = Inr (Ret (-1))" by blast
  then have "compare ?a (PyVersion ?b) = Inr (Ret (-1))" using p0 p1 by simp
  with a b p0 p1 show ?thesis by simp
qed

text \<open>
  Claim C4. In \<open>partial_compare\<close>, an integer against a string gives -1 and a string
  against an integer gives 1, whatever the integer and the string are; two stage tokens
  compare by their position in \<open>alpha\<close>, \<open>beta\<close>, \<open>release_candidate\<close>, \<open>release\<close>.
\<close>

theorem identifier_rule:
  "partial_compare (PInt n) (PStr s) = Inr (-1)
   \<and> partial_compare (PStr s) (PInt n) = Inr 1
   \<and> (\<forall>i<4. \<forall>j<4.
        partial_compare (PStr ([''alpha'', ''beta'', ''release_candidate'', ''release''] ! i))
                        (PStr ([''alpha'', ''beta'', ''release_candidate'', ''release''] ! j))
        = Inr (if i > j then 1 else if i = j then 0 else -1))"
proof -
  let ?stages = "[''alpha'', ''beta'', ''release_candidate'', ''release'']"
  have rank: "PRIORITY (?stages ! i) = Some (int i)" if "i < 4" for i
  proof -
    from that have "i = 0 \<or> i = 1 \<or> i = 2 \<or> i = 3" by arith
    then show ?thesis by (elim disjE) (simp_all add: PRIORITY_def)
  qed
  show ?thesis by (simp add: rank)
qed

theorem identifier_rule_witness:
  "partial_compare (PInt 1000) (PStr ''alpha'') = Inr (-1)
   \<and> partial_compare (PStr ''alpha'') (PInt 1000) = Inr 1
   \<and> partial_compare (PStr ''beta'') (PStr ''release'') = Inr (-1)"
proof -
  note r = identifier_rule [of 1000 "''alpha''"]
  note r3 = r [THEN conjunct2, THEN conjunct2, rule_format, of 1 3]
  have "partial_compare (PStr ''beta'') (PStr ''release'') = Inr (-1)"
    using r3 by simp
  with r show ?thesis by blast
qed

text \<open>
  Claim C5. Constructing a Version from \<open>1.01.0\<close>, \<open>v1.0.0\<close> or \<open>1.0\<close> raises the
  \<open>ValueError\<close> of \<open>parse\<close>, whose message carries the input, and yields no Version.
\<close>

theorem malformed_inputs_raise:
  "Version_init ''1.01.0'' = Inl (ValueError ''1.01.0 is not valid version'')
   \<and> Version_init ''v1.0.0'' = Inl (ValueError ''v1.0.0 is not valid version'')
   \<and> Version_init ''1.0'' = Inl (ValueError ''1.0 is not valid version'')"
  by code_simp

text \<open>
  Claim C6. Antisymmetry: for constructed Versions \<open>a\<close> and \<open>b\<close>, \<open>compare(a, b)\<close> is 1
  (GREATER) if and only if \<open>compare(b, a)\<close> is -1 (LESS).
\<close>

theorem compare_antisymmetric:
  assumes "Version_init s = Inr a" and "Version_init t = Inr b"
  shows "compare a (PyVersion b) = Inr (Ret 1) \<longleftrightarrow> compare b (PyVersion a) = Inr (Ret (-1))"
  using assms by (intro compare_wf_antisym Version_init_wf)

theorem compare_antisymmetric_witness:
  "Version_init ''1.0.10-alpha.beta'' =
      Inr \<lparr>main_version = (1, 0, 10), pre_release = [PStr ''alpha'', PStr ''beta''], pre_release_len = 2\<rparr>
   \<and> Version_init ''1.0.1b'' =
      Inr \<lparr>main_version = (1, 0, 1), pre_release = [PStr ''beta''], pre_release_len = 1\<rparr>
   \<and> compare \<lparr>main_version = (1, 0, 10), pre_release = [PStr ''alpha'', PStr ''beta''], pre_release_len = 2\<rparr>
        (PyVersion \<lparr>main_version = (1, 0, 1), pre_release = [PStr ''beta''], pre_release_len = 1\<rparr>) = Inr (Ret 1)
   \<and> compare \<lparr>main_version = (1, 0, 1), pre_release = [PStr ''beta''], pre_release_len = 1\<rparr>
        (PyVersion \<lparr>main_version = (1, 0, 10), pre_release = [PStr ''alpha'', PStr ''beta''], pre_release_len = 2\<rparr>)
       = Inr (Ret (-1))"
proof -
  let ?a = "\<lparr>main_version = (1, 0, 10), pre_release = [PStr ''alpha'', PStr ''beta''], pre_release_len = 2\<rparr>"
  let ?b = "\<lparr>main_version = (1, 0, 1), pre_release = [PStr ''beta''], pre_release_len = 1\<rparr>"
  have a: "Version_init ''1.0.10-alpha.beta'' = Inr ?a" by code_simp
  have b: "Version_init ''1.0.1b'' = Inr ?b" by code_simp
  have c: "compare ?a (PyVersion ?b) = Inr (Ret 1)" by (simp add: compare_def)
  from compare_antisymmetric [OF a b] a b c show ?thesis by simp
qed

text \<open>
  Claim C7. \<open>Version("1.0.0a")\<close> and \<open>Version("1.0.0-alpha")\<close> both have the
  \<open>pre_release\<close> \<open>('alpha',)\<close>; \<open>compare\<close> of the two returns 0 (EQUAL) and \<open>__eq__\<close>
  returns \<open>True\<close>.
\<close>

theorem shorthand_a_equals_alpha:
  "Version_init ''1.0.0a'' =
      Inr \<lparr>main_version = (1, 0, 0), pre_release = [PStr ''alpha''], pre_release_len = 1\<rparr>
   \<and> Version_init ''1.0.0-alpha'' =
      Inr \<lparr>main_version = (1, 0, 0), pre_release = [PStr ''alpha''], pre_release_len = 1\<rparr>
   \<and> compare \<lparr>main_version = (1, 0, 0), pre_release = [PStr ''alpha''], pre_release_len = 1\<rparr>
        (PyVersion \<lparr>main_version = (1, 0, 0), pre_release = [PStr ''alpha''], pre_release_len = 1\<rparr>)
      = Inr (Ret 0)
   \<and> Version_eq \<lparr>main_version = (1, 0, 0), pre_release = [PStr ''alpha''], pre_release_len = 1\<rparr>
        (PyVersion \<lparr>main_version = (1, 0, 0), pre_release = [PStr ''alpha''], pre_release_len = 1\<rparr>)
      = Ret True"
proof (intro conjI)
  show "Version_init ''1.0.0a'' =
      Inr \<lparr>main_version = (1, 0, 0), pre_release = [PStr ''alpha''], pre_release_len = 1\<rparr>"
    by code_simp
  show "Version_init ''1.0.0-alpha'' =
      Inr \<lparr>main_version = (1, 0, 0), pre_release = [PStr ''alpha''], pre_release_len = 1\<rparr>"
    by code_simp
  show "compare \<lparr>main_version = (1, 0, 0), pre_release = [PStr ''alpha''], pre_release_len = 1\<rparr>
        (PyVersion \<lparr>main_version = (1, 0, 0), pre_release = [PStr ''alpha''], pre_release_len = 1\<rparr>)
      = Inr (Ret 0)"
    by (simp add: compare_def tuple_get_def PRIORITY_def)
  show "Version_eq \<lparr>main_version = (1, 0, 0), pre_release = [PStr ''alpha''], pre_release_len = 1\<rparr>
        (PyVersion \<lparr>main_version = (1, 0, 0), pre_release = [PStr ''alpha''], pre_release_len = 1\<rparr>)
      = Ret True"
    by (simp add: Version_eq_def)
qed

text \<open>
  Claim C8. When the other operand is not a Version, the methods \<open>compare\<close>, \<open>__eq__\<close>
  and \<open>__lt__\<close> return \<open>NotImplemented\<close>: no ordering, no boolean, and the operand is not
  converted (a string that spells a version is not parsed).
\<close>

theorem foreign_operand_NotImplemented:
  assumes "\<forall>w. other \<noteq> PyVersion w"
  shows "compare v other = Inr NotImplemented
       \<and> Version_eq v other = NotImplemented
       \<and> Version_lt v other = Inr NotImplemented"
  using assms by (cases other) (auto simp: compare_def Version_eq_def Version_lt_def)

theorem foreign_operand_NotImplemented_witness:
  "compare \<lparr>main_version = (1, 0, 0), pre_release = [], pre_release_len = 0\<rparr> (PyStr ''1.0.0'')
      = Inr NotImplemented
   \<and> Version_eq \<lparr>main_version = (1, 0, 0), pre_release = [], pre_release_len = 0\<rparr> (PyStr ''1.0.0'')
      = NotImplemented
   \<and> Version_lt \<lparr>main_version = (1, 0, 0), pre_release = [], pre_release_len = 0\<rparr> (PyStr ''1.0.0'')
      = Inr NotImplemented"
proof -
  have "\<forall>w. PyStr ''1.0.0'' \<noteq> PyVersion w" by simp
  then show ?thesis by (rule foreign_operand_NotImplemented)
qed

text \<open>
  Claim C9. Every element of the \<open>pre_release\<close> of a constructed Version is an integer
  or one of \<open>alpha\<close>, \<open>beta\<close>, \<open>release_candidate\<close>, \<open>release\<close>; hence between two
  constructed Versions every call of \<open>partial_compare\<close> returns, with no \<open>KeyError\<close>
  from \<open>_PRIORITY\<close>, and \<open>compare\<close> returns a result.
\<close>

theorem constructed_identifiers_have_priority:
  assumes "Version_init s = Inr a" and "Version_init t = Inr b"
  shows "(\<forall>x\<in>set (pre_release a).
            (\<exists>n. x = PInt n)
            \<or> (\<exists>w\<in>{''alpha'', ''beta'', ''release_candidate'', ''release''}. x = PStr w))
       \<and> (\<forall>x\<in>set (pre_release a). \<forall>y\<in>set (pre_release b). \<exists>r. partial_compare x y = Inr r)
       \<and> (\<exists>r. compare a (PyVersion b) = Inr (Ret r))"
proof -
  have wa: "wf_Version a" using assms(1) by (rule Version_init_wf)
  have wb: "wf_Version b" using assms(2) by (rule Version_init_wf)
  have la: "\<forall>x\<in>set (pre_release a). stage_or_int x" and lb: "\<forall>y\<in>set (pre_release b). stage_or_int y"
    using wa wb by (simp_all add: wf_Version_def list_all_iff)
  have 1: "\<forall>x\<in>set (pre_release a).
            (\<exists>n. x = PInt n)
            \<or> (\<exists>w\<in>{''alpha'', ''beta'', ''release_candidate'', ''release''}. x = PStr w)"
  proof
    fix x assume "x \<in> set (pre_release a)"
    with la have "stage_or_int x" by blast
    then show "(\<exists>n. x = PInt n)
            \<or> (\<exists>w\<in>{''alpha'', ''beta'', ''release_candidate'', ''release''}. x = PStr w)"
      by (cases x) (simp_all add: stage_or_int_def)
  qed
  have 2: "\<forall>x\<in>set (pre_release a). \<forall>y\<in>set (pre_release b). \<exists>r. partial_compare x y = Inr r"
    using la lb partial_compare_range by blast
  from 1 2 compare_wf_total [OF wa wb] show ?thesis by blast
qed

theorem constructed_identifiers_have_priority_witness:
  "Version_init ''1.0.0-rc.1'' =
      Inr \<lparr>main_version = (1, 0, 0), pre_release = [PStr ''release_candidate'', PInt 1], pre_release_len = 2\<rparr>
   \<and> Version_init ''1.0.1b'' =
      Inr \<lparr>main_version = (1, 0, 1), pre_release = [PStr ''beta''], pre_release_len = 1\<rparr>
   \<and> (\<exists>r. partial_compare (PStr ''release_candidate'') (PStr ''beta'') = Inr r)
   \<and> (\<exists>r. compare \<lparr>main_version = (1, 0, 0), pre_release = [PStr ''release_candidate'', PInt 1], pre_release_len = 2\<rparr>
        (PyVersion \<lparr>main_version = (1, 0, 1), pre_release = [PStr ''beta''], pre_release_len = 1\<rparr>) = Inr (Ret r))"
proof -
  let ?a = "\<lparr>main_version = (1, 0, 0), pre_release = [PStr ''release_candidate'', PInt 1], pre_release_len = 2\<rparr>"
  let ?b = "\<lparr>main_version = (1, 0, 1), pre_release = [PStr ''beta''], pre_release_len = 1\<rparr>"
  have a: "Version_init ''1.0.0-rc.1'' = Inr ?a" by code_simp
  have b: "Version_init ''1.0.1b'' = Inr ?b" by code_simp
  from constructed_identifiers_have_priority [OF a b] a b show ?thesis by simp
qed

text \<open>
  Claim C10. \<open>Version("1.0.0-c")\<close> raises \<open>KeyError\<close>, not the \<open>ValueError\<close> of
  \<open>parse\<close>: the pattern accepts \<open>-c\<close> as a default-form pre-release, the membership
  test of \<open>replace_shortening\<close> lets \<open>c\<close> through, and \<open>_SHORTENING\<close> has no key \<open>c\<close>.
\<close>

theorem hyphen_c_raises_KeyError:
  "parse ''1.0.0-c'' = Inr (Some ''1'', Some ''0'', Some ''0'', None, Some ''-c'')
   \<and> SHORTENING ''c'' = None
   \<and> replace_shortening ''c'' = Inl (KeyError ''c'')
   \<and> Version_init ''1.0.0-c'' = Inl (KeyError ''c'')"
  by code_simp

end
